theory Spec2Isabelle
  imports Main
begin

section \<open>Data model of the Streamlit chat app\<close>

text \<open>
  The app (\<^verbatim>\<open>apps/data_visualization_agent-app/app.py\<close>) keeps two things in the
  Streamlit session: the chat transcript \<^verbatim>\<open>msgs.messages\<close> and the list
  \<^verbatim>\<open>st.session_state.dataframes\<close>. A message has a \<^verbatim>\<open>type\<close> (\<^verbatim>\<open>"human"\<close> or
  \<^verbatim>\<open>"ai"\<close>) and a \<^verbatim>\<open>content\<close> string. Strings are lists of 8-bit characters that
  stand for ASCII text.
\<close>

datatype role = Human | AI

record message =
  mtype :: role
  content :: string

text \<open>
  A pandas data frame is opaque to the app, which only stores it and passes it on; the
  model keeps its rows so that emptiness can be expressed. A Plotly figure is opaque too.
\<close>

datatype dataframe = DataFrame (rows: "string list list")

datatype figure = Figure string

text \<open>
  Everything the script does besides returning is written to a trace, in program order:
  the Streamlit calls, the two agent invocations and the two kinds of session mutation.
  Console output (\<^verbatim>\<open>print\<close>, \<^verbatim>\<open>logger\<close>) is not part of the model.
\<close>

datatype effect =
    ChatWrite role string
  | ChatDataframe role dataframe
  | StDataframe dataframe
  | StPlotlyChart figure
  | StError string
  | SqlInvoked string
  | VizInvoked string dataframe
  | MessageAdded role string
  | DataframeStored dataframe

record world =
  messages :: "message list"
  dataframes :: "dataframe list"
  trace :: "effect list"

text \<open>
  The agents are library code outside the app. One call of
  \<^verbatim>\<open>asyncio.run(handle_question(question))\<close> either raises (with the exception's text) or
  yields \<^verbatim>\<open>get_sql_query_code()\<close> (a string or \<^verbatim>\<open>None\<close>) and \<^verbatim>\<open>get_data_sql()\<close>. One
  call of \<^verbatim>\<open>invoke_agent\<close> followed by \<^verbatim>\<open>get_plotly_graph()\<close> either raises or yields
  a figure, where \<open>None\<close> stands for every falsy result.
\<close>

datatype sql_outcome = SqlRaised string | SqlReturned "string option" dataframe

datatype viz_outcome = VizRaised string | VizReturned "figure option"

record agents =
  sql_data_analyst :: "string \<Rightarrow> sql_outcome"
  data_visualization_agent :: "string \<Rightarrow> dataframe \<Rightarrow> viz_outcome"

datatype py_error = ValueError | IndexError

section \<open>Python built-ins used by the script\<close>

text \<open>\<^verbatim>\<open>str(n)\<close> for a list length: decimal digits, no sign, no leading zero.\<close>

definition digit_char :: "nat \<Rightarrow> char" where
  "digit_char d = ''0123456789'' ! d"

fun str_nat :: "nat \<Rightarrow> string" where
  "str_nat n = (if n < 10 then [digit_char n] else str_nat (n div 10) @ [digit_char (n mod 10)])"

declare str_nat.simps [simp del]

text \<open>\<^verbatim>\<open>s.startswith(p)\<close>, \<^verbatim>\<open>s.find(sub)\<close> (\<open>None\<close> for -1) and \<^verbatim>\<open>sub in s\<close>.\<close>

fun startswith :: "string \<Rightarrow> string \<Rightarrow> bool" where
  "startswith s [] = True"
| "startswith [] (p # ps) = False"
| "startswith (c # cs) (p # ps) = (c = p \<and> startswith cs ps)"

fun py_find :: "string \<Rightarrow> string \<Rightarrow> nat option" where
  "py_find [] sub = (if sub = [] then Some 0 else None)"
| "py_find (c # cs) sub =
     (if startswith (c # cs) sub then Some 0 else map_option Suc (py_find cs sub))"

definition py_in :: "string \<Rightarrow> string \<Rightarrow> bool" where
  "py_in sub s = (py_find s sub \<noteq> None)"

text \<open>
  \<^verbatim>\<open>s.split(sep)\<close>: cut at each occurrence of \<open>sep\<close>, found left to right without
  overlap. Python raises on an empty separator; the script only splits on its marker, and
  the model returns the string unsplit there.
\<close>

function py_split :: "string \<Rightarrow> string \<Rightarrow> string list" where
  "py_split s sep =
     (if sep = [] then [s]
      else case py_find s sep of
             None \<Rightarrow> [s]
           | Some i \<Rightarrow> take i s # py_split (drop (i + length sep) s) sep)"
  by pat_completeness auto
termination
proof (relation "measure (\<lambda>(s, sep). length s)")
  show "wf (measure (\<lambda>(s, sep). length s))" by simp
next
  fix s sep :: string and i :: nat
  assume "sep \<noteq> []" and "py_find s sep = Some i"
  then have "s \<noteq> []" by (cases s) auto
  with \<open>sep \<noteq> []\<close> show "((drop (i + length sep) s, sep), (s, sep)) \<in> measure (\<lambda>(s, sep). length s)"
    by (cases s; cases sep) auto
qed

declare py_split.simps [simp del]

text \<open>
  \<^verbatim>\<open>xs[i]\<close> on a list: a negative index counts from the end, anything outside
  \<open>-len \<le> i < len\<close> raises \<^verbatim>\<open>IndexError\<close>.
\<close>

definition py_getitem :: "'a list \<Rightarrow> int \<Rightarrow> py_error + 'a" where
  "py_getitem xs i =
     (if 0 \<le> i \<and> i < int (length xs) then Inr (xs ! nat i)
      else if i < 0 \<and> - int (length xs) \<le> i then Inr (xs ! nat (int (length xs) + i))
      else Inl IndexError)"

text \<open>
  \<^verbatim>\<open>int(s)\<close> on ASCII text: surrounding whitespace (tab, LF, VT, FF, CR, space) is
  skipped, one sign is allowed, then decimal digits follow, where single underscores may
  stand between two digits. Anything else raises \<^verbatim>\<open>ValueError\<close> (\<open>None\<close>). Python also
  reads the whitespace and decimal digits of other scripts, and raises on more than 4300
  digits; \<open>py_int\<close> is \<^verbatim>\<open>int\<close> on strings that satisfy \<open>is_ascii\<close> and hold at most
  4300 digits. What is proved of an arbitrary turn states both as hypotheses. The indices
  the script writes itself are numerals of list lengths, which have fewer than 20 digits.
\<close>

definition is_ascii :: "string \<Rightarrow> bool" where
  "is_ascii s = list_all (\<lambda>c. (of_char c :: nat) < 128) s"

definition is_space :: "char \<Rightarrow> bool" where
  "is_space c = (c \<in> set [CHR 0x09, CHR 0x0A, CHR 0x0B, CHR 0x0C, CHR 0x0D, CHR '' ''])"

definition digit_val :: "char \<Rightarrow> nat option" where
  "digit_val c = map_of (zip ''0123456789'' [0, 1, 2, 3, 4, 5, 6, 7, 8, 9]) c"

fun py_digits :: "nat \<Rightarrow> string \<Rightarrow> nat option" where
  "py_digits acc [] = Some acc"
| "py_digits acc [c] =
     (case digit_val c of None \<Rightarrow> None | Some d \<Rightarrow> Some (acc * 10 + d))"
| "py_digits acc (c # c' # cs) =
     (if c = CHR ''_'' then
        (case digit_val c' of None \<Rightarrow> None | Some d \<Rightarrow> py_digits (acc * 10 + d) cs)
      else
        (case digit_val c of None \<Rightarrow> None | Some d \<Rightarrow> py_digits (acc * 10 + d) (c' # cs)))"

fun py_nat :: "string \<Rightarrow> nat option" where
  "py_nat [] = None"
| "py_nat (c # cs) = (case digit_val c of None \<Rightarrow> None | Some d \<Rightarrow> py_digits d cs)"

definition strip :: "string \<Rightarrow> string" where
  "strip s = rev (dropWhile is_space (rev (dropWhile is_space s)))"

definition py_int :: "string \<Rightarrow> int option" where
  "py_int s =
     (case strip s of
        [] \<Rightarrow> None
      | c # cs \<Rightarrow>
          if c = CHR ''-'' then map_option (\<lambda>n. - int n) (py_nat cs)
          else if c = CHR ''+'' then map_option int (py_nat cs)
          else map_option int (py_nat (c # cs)))"

section \<open>Session primitives\<close>

definition emit :: "effect \<Rightarrow> world \<Rightarrow> world" where
  "emit e w = w\<lparr>trace := trace w @ [e]\<rparr>"

definition add_message :: "role \<Rightarrow> string \<Rightarrow> world \<Rightarrow> world" where
  "add_message r c w =
     w\<lparr>messages := messages w @ [\<lparr>mtype = r, content = c\<rparr>],
       trace := trace w @ [MessageAdded r c]\<rparr>"

definition add_ai_message :: "string \<Rightarrow> world \<Rightarrow> world" where
  "add_ai_message = add_message AI"

definition add_user_message :: "string \<Rightarrow> world \<Rightarrow> world" where
  "add_user_message = add_message Human"

definition append_dataframe :: "dataframe \<Rightarrow> world \<Rightarrow> world" where
  "append_dataframe df w =
     w\<lparr>dataframes := dataframes w @ [df], trace := trace w @ [DataframeStored df]\<rparr>"

section \<open>Handling one question (lines 182 to 262)\<close>

definition response_text :: "string \<Rightarrow> string" where
  "response_text e =
     ''\<newline>            I'm sorry. I am having difficulty answering that question. You can try providing more details and I'll do my best to provide an answer.\<newline>            \<newline>            Error: ''
     @ e @ ''\<newline>            ''"

definition response_1 :: "string \<Rightarrow> string" where
  "response_1 sql_query =
     ''### SQL Results:\<newline>\<newline>SQL Query:\<newline>\<newline>```sql\<newline>'' @ sql_query
     @ ''\<newline>```\<newline>\<newline>Result:''"

definition dataframe_index :: "nat \<Rightarrow> string" where
  "dataframe_index df_index = ''DATAFRAME_INDEX:'' @ str_nat df_index"

definition viz_response :: string where
  "viz_response = ''### Visualization created based on the data''"

text \<open>Lines 239 to 262: the visualization attempt and its exception handler.\<close>

definition visualize :: "agents \<Rightarrow> string \<Rightarrow> dataframe \<Rightarrow> world \<Rightarrow> world" where
  "visualize ag question response_df w =
     (let w1 = emit (VizInvoked question response_df) w in
      case data_visualization_agent ag question response_df of
        VizRaised e \<Rightarrow> emit (StError (''Failed to create visualization: '' @ e)) w1
      | VizReturned plotly_graph \<Rightarrow>
          (case plotly_graph of
             None \<Rightarrow> w1
           | Some fig \<Rightarrow>
               (let w2 = emit (StPlotlyChart fig) w1;
                    w3 = add_ai_message viz_response w2
                in emit (ChatWrite AI viz_response) w3)))"

text \<open>Lines 217 to 262: reached when the SQL step did not raise.\<close>

definition generate_results ::
  "agents \<Rightarrow> string \<Rightarrow> string option \<Rightarrow> dataframe \<Rightarrow> world \<Rightarrow> world" where
  "generate_results ag question sql_query response_df w =
     (case sql_query of
        None \<Rightarrow> w
      | Some q \<Rightarrow>
          if q = [] then w
          else
            (let r1 = response_1 q;
                 df_index = length (dataframes w);
                 w1 = append_dataframe response_df w;
                 w2 = add_ai_message r1 w1;
                 w3 = add_ai_message (dataframe_index df_index) w2;
                 w4 = emit (ChatWrite AI r1) w3;
                 w5 = emit (StDataframe response_df) w4
             in visualize ag question response_df w5))"

text \<open>Lines 188 to 262: the body run for a submitted question.\<close>

definition process_question :: "agents \<Rightarrow> string \<Rightarrow> world \<Rightarrow> world" where
  "process_question ag question w =
     (let w1 = emit (ChatWrite Human question) w;
          w2 = add_user_message question w1;
          w3 = emit (SqlInvoked question) w2
      in case sql_data_analyst ag question of
           SqlRaised e \<Rightarrow>
             (let w4 = add_ai_message (response_text e) w3;
                  w5 = emit (ChatWrite AI (response_text e)) w4
              in emit (StError (''Error: '' @ e)) w5)
         | SqlReturned sql_query response_df \<Rightarrow>
             generate_results ag question sql_query response_df w3)"

section \<open>Rendering the transcript (lines 143 to 153)\<close>

text \<open>
  One iteration of the loop of \<^verbatim>\<open>display_chat_history\<close>: the message is shown in a
  chat bubble of its type, as a data frame when its content holds the marker.
\<close>

definition display_message :: "dataframe list \<Rightarrow> message \<Rightarrow> py_error + effect" where
  "display_message dfs msg =
     (if py_in ''DATAFRAME_INDEX:'' (content msg) then
        (case py_getitem (py_split (content msg) ''DATAFRAME_INDEX:'') 1 of
           Inl e \<Rightarrow> Inl e
         | Inr txt \<Rightarrow>
             (case py_int txt of
                None \<Rightarrow> Inl ValueError
              | Some df_index \<Rightarrow>
                  (case py_getitem dfs df_index of
                     Inl e \<Rightarrow> Inl e
                   | Inr df \<Rightarrow> Inr (ChatDataframe (mtype msg) df))))
      else Inr (ChatWrite (mtype msg) (content msg)))"

text \<open>
  The loop stops at the first exception; what was rendered before it stays in the trace.
\<close>

fun display_loop :: "message list \<Rightarrow> world \<Rightarrow> py_error \<times> world + world" where
  "display_loop [] w = Inr w"
| "display_loop (msg # msgs) w =
     (case display_message (dataframes w) msg of
        Inl e \<Rightarrow> Inl (e, w)
      | Inr ev \<Rightarrow> display_loop msgs (emit ev w))"

definition display_chat_history :: "world \<Rightarrow> py_error \<times> world + world" where
  "display_chat_history w = display_loop (messages w) w"

section \<open>One run of the script, and a session\<close>

text \<open>
  Lines 134 to 140. A session starts with no message and no \<^verbatim>\<open>dataframes\<close> key; the first
  run creates the empty list, which \<open>new_session\<close> already holds.
\<close>

definition new_session :: world where
  "new_session = \<lparr>messages = [], dataframes = [], trace = []\<rparr>"

definition setup_memory :: "world \<Rightarrow> world" where
  "setup_memory w =
     (if length (messages w) = 0 then add_ai_message ''How can I help you?'' w else w)"

text \<open>
  Streamlit runs the script from the top on every interaction. The runs modelled are those
  that pass the database connection and the API key checks of lines 83 to 113, so that
  \<^verbatim>\<open>PATH_DB\<close> and the key are truthy. An exception that escapes the rendering ends the
  run before the chat input is read. \<^verbatim>\<open>st.chat_input\<close> gives \<^verbatim>\<open>None\<close> or the submitted
  text, and a falsy value skips the block. Streamlit's own calls are taken not to raise.
\<close>

definition app_run :: "agents \<Rightarrow> string option \<Rightarrow> world \<Rightarrow> world" where
  "app_run ag chat_input w =
     (case display_chat_history (setup_memory w) of
        Inl (e, w1) \<Rightarrow> w1
      | Inr w1 \<Rightarrow>
          (case chat_input of
             None \<Rightarrow> w1
           | Some question \<Rightarrow> if question = [] then w1 else process_question ag question w1))"

fun session :: "(agents \<times> string option) list \<Rightarrow> world \<Rightarrow> world" where
  "session [] w = w"
| "session ((ag, chat_input) # runs) w = session runs (app_run ag chat_input w)"

section \<open>Observations on one question\<close>

text \<open>
  What handling one question adds to the trace and to the transcript, and the assistant
  turns among the added turns.
\<close>

definition question_effects :: "agents \<Rightarrow> string \<Rightarrow> world \<Rightarrow> effect list" where
  "question_effects ag question w =
     drop (length (trace w)) (trace (process_question ag question w))"

definition question_turns :: "agents \<Rightarrow> string \<Rightarrow> world \<Rightarrow> message list" where
  "question_turns ag question w =
     drop (length (messages w)) (messages (process_question ag question w))"

fun is_ai :: "message \<Rightarrow> bool" where
  "is_ai m = (mtype m = AI)"

definition ai_turns :: "message list \<Rightarrow> message list" where
  "ai_turns ms = filter is_ai ms"

fun is_viz_invoked :: "effect \<Rightarrow> bool" where
  "is_viz_invoked (VizInvoked q df) = True"
| "is_viz_invoked _ = False"

text \<open>Agents that answer every call with the same outcome, for concrete runs.\<close>

definition constant_agents :: "sql_outcome \<Rightarrow> viz_outcome \<Rightarrow> agents" where
  "constant_agents s v =
     \<lparr>sql_data_analyst = (\<lambda>q. s), data_visualization_agent = (\<lambda>q df. v)\<rparr>"

text \<open>
  The world after lines 190 to 236 when the SQL step returned a non-empty query: the
  question, the SQL text and the table reference are in the transcript, the table is stored.
\<close>

definition sql_recorded :: "string \<Rightarrow> string \<Rightarrow> dataframe \<Rightarrow> world \<Rightarrow> world" where
  "sql_recorded question q df w =
     w\<lparr>dataframes := dataframes w @ [df],
       messages := messages w @ [\<lparr>mtype = Human, content = question\<rparr>,
                                 \<lparr>mtype = AI, content = response_1 q\<rparr>,
                                 \<lparr>mtype = AI, content = dataframe_index (length (dataframes w))\<rparr>],
       trace := trace w @ [ChatWrite Human question, MessageAdded Human question,
                           SqlInvoked question, DataframeStored df,
                           MessageAdded AI (response_1 q),
                           MessageAdded AI (dataframe_index (length (dataframes w))),
                           ChatWrite AI (response_1 q), StDataframe df]\<rparr>"


text \<open>Further observers: the charts shown, and what the session keeps between runs.\<close>

fun is_plotly_chart :: "effect \<Rightarrow> bool" where
  "is_plotly_chart (StPlotlyChart fig) = True"
| "is_plotly_chart _ = False"

definition session_state :: "world \<Rightarrow> message list \<times> dataframe list" where
  "session_state w = (messages w, dataframes w)"

text \<open>Decimal digits and the number a digit string denotes, for reasoning about \<open>py_int\<close>.\<close>

definition is_digit :: "char \<Rightarrow> bool" where
  "is_digit c = (digit_val c \<noteq> None)"

definition digits_value :: "nat \<Rightarrow> string \<Rightarrow> nat" where
  "digits_value acc s = foldl (\<lambda>a c. a * 10 + the (digit_val c)) acc s"

text \<open>The characters that can occur in a string \<^verbatim>\<open>int\<close> accepts.\<close>

definition int_char :: "char \<Rightarrow> bool" where
  "int_char c = (is_digit c \<or> is_space c \<or> c \<in> set ''+-_'')"

text \<open>
  The reference turns of a transcript: assistant turns whose content starts with the marker.
  The other assistant turns written by the script start with a line feed, with \<open>#\<close> or
  with \<open>How\<close>.
\<close>

definition is_table_ref :: "message \<Rightarrow> bool" where
  "is_table_ref m = (mtype m = AI \<and> startswith (content m) ''DATAFRAME_INDEX:'')"

definition table_refs :: "message list \<Rightarrow> string list" where
  "table_refs ms = map content (filter is_table_ref ms)"

text \<open>The invariant of a session: the reference turns, in order, name the indices from 0 on.\<close>

definition refs_in_order :: "world \<Rightarrow> bool" where
  "refs_in_order w =
     (table_refs (messages w) = map dataframe_index [0..<length (dataframes w)])"

section \<open>The four ways a question ends\<close>

lemmas prim_defs = emit_def add_message_def add_ai_message_def add_user_message_def
  append_dataframe_def

lemma visualize_raised:
  assumes "data_visualization_agent ag question df = VizRaised e"
  shows "visualize ag question df w =
         w\<lparr>trace := trace w @ [VizInvoked question df,
                                StError (''Failed to create visualization: '' @ e)]\<rparr>"
  using assms by (simp add: visualize_def prim_defs)

lemma visualize_falsy:
  assumes "data_visualization_agent ag question df = VizReturned None"
  shows "visualize ag question df w = w\<lparr>trace := trace w @ [VizInvoked question df]\<rparr>"
  using assms by (simp add: visualize_def prim_defs)

lemma visualize_figure:
  assumes "data_visualization_agent ag question df = VizReturned (Some fig)"
  shows "visualize ag question df w =
         w\<lparr>messages := messages w @ [\<lparr>mtype = AI, content = viz_response\<rparr>],
           trace := trace w @ [VizInvoked question df, StPlotlyChart fig,
                               MessageAdded AI viz_response, ChatWrite AI viz_response]\<rparr>"
  using assms by (simp add: visualize_def prim_defs)

lemma process_question_raised:
  assumes "sql_data_analyst ag question = SqlRaised e"
  shows "process_question ag question w =
         w\<lparr>messages := messages w @ [\<lparr>mtype = Human, content = question\<rparr>,
                                     \<lparr>mtype = AI, content = response_text e\<rparr>],
           trace := trace w @ [ChatWrite Human question, MessageAdded Human question,
                               SqlInvoked question, MessageAdded AI (response_text e),
                               ChatWrite AI (response_text e), StError (''Error: '' @ e)]\<rparr>"
  using assms by (simp add: process_question_def prim_defs)

lemma process_question_no_sql:
  assumes "sql_data_analyst ag question = SqlReturned sql_query df"
    and "sql_query = None \<or> sql_query = Some []"
  shows "process_question ag question w =
         w\<lparr>messages := messages w @ [\<lparr>mtype = Human, content = question\<rparr>],
           trace := trace w @ [ChatWrite Human question, MessageAdded Human question,
                               SqlInvoked question]\<rparr>"
  using assms by (auto simp add: process_question_def generate_results_def prim_defs)

lemma process_question_sql:
  assumes "sql_data_analyst ag question = SqlReturned (Some q) df" and "q \<noteq> []"
  shows "process_question ag question w = visualize ag question df (sql_recorded question q df w)"
  using assms
  by (simp add: process_question_def generate_results_def prim_defs sql_recorded_def Let_def)

lemma py_in_embedded: "py_in sub (pre @ sub @ post)"
proof -
  have sw: "startswith (sub @ post) sub" for post
    by (induction sub) auto
  have "py_find (pre @ sub @ post) sub \<noteq> None"
  proof (induction pre)
    case Nil
    show ?case using sw [of post] by (cases "sub @ post") auto
  next
    case (Cons c pre)
    then show ?case by auto
  qed
  then show ?thesis by (simp add: py_in_def)
qed

section \<open>Digits: \<open>int(str(n))\<close> gives \<open>n\<close> back\<close>

lemma digit_val_digit_char: "d < 10 \<Longrightarrow> digit_val (digit_char d) = Some d"
proof -
  assume "d < 10"
  then consider "d = 0" | "d = 1" | "d = 2" | "d = 3" | "d = 4" | "d = 5" | "d = 6" | "d = 7"
    | "d = 8" | "d = 9" by atomize_elim arith
  then show ?thesis
    by cases (simp_all add: digit_val_def digit_char_def)
qed

lemma is_digit_cases: "is_digit c \<longleftrightarrow> c \<in> set ''0123456789''"
  by (simp add: is_digit_def digit_val_def)

lemma is_digit_digit_char: "d < 10 \<Longrightarrow> is_digit (digit_char d)"
  by (simp add: is_digit_def digit_val_digit_char)

lemma str_nat_digits: "\<forall>c \<in> set (str_nat n). is_digit c"
proof (induction n rule: str_nat.induct)
  case (1 n)
  show ?case
  proof (cases "n < 10")
    case True
    then show ?thesis by (subst str_nat.simps) (simp add: is_digit_digit_char)
  next
    case False
    with 1 show ?thesis by (subst str_nat.simps) (simp add: is_digit_digit_char)
  qed
qed

lemma str_nat_nonempty: "str_nat n \<noteq> []"
  by (subst str_nat.simps) simp

lemma py_digits_plain:
  "\<forall>c \<in> set s. is_digit c \<Longrightarrow> py_digits acc s = Some (digits_value acc s)"
proof (induction acc s rule: py_digits.induct)
  case (1 acc)
  show ?case by (simp add: digits_value_def)
next
  case (2 acc c)
  then show ?case by (auto simp: digits_value_def is_digit_def)
next
  case (3 acc c c' cs)
  have "c \<noteq> CHR ''_''" using 3(3) by (auto simp: is_digit_cases)
  moreover obtain d where d: "digit_val c = Some d" using 3(3) by (auto simp: is_digit_def)
  ultimately show ?case using 3(2) [of d] 3(3) by (simp add: digits_value_def)
qed

lemma py_nat_plain:
  assumes "s \<noteq> []" and "\<forall>c \<in> set s. is_digit c"
  shows "py_nat s = Some (digits_value 0 s)"
proof (cases s)
  case Nil
  with assms show ?thesis by simp
next
  case (Cons c cs)
  with assms obtain d where d: "digit_val c = Some d" by (auto simp: is_digit_def)
  from Cons assms have "py_digits d cs = Some (digits_value d cs)"
    by (intro py_digits_plain) simp
  with Cons d show ?thesis by (simp add: digits_value_def)
qed

lemma digits_value_str_nat: "digits_value 0 (str_nat n) = n"
proof (induction n rule: str_nat.induct)
  case (1 n)
  show ?case
  proof (cases "n < 10")
    case True
    then show ?thesis by (subst str_nat.simps) (simp add: digits_value_def digit_val_digit_char)
  next
    case False
    with 1 have "digits_value 0 (str_nat (n div 10)) = n div 10" by simp
    with False show ?thesis
      by (subst str_nat.simps) (simp add: digits_value_def digit_val_digit_char)
  qed
qed

lemma py_nat_str_nat: "py_nat (str_nat n) = Some n"
  by (simp add: py_nat_plain str_nat_nonempty str_nat_digits digits_value_str_nat)

lemma digit_not_space: "c \<in> set ''0123456789'' \<Longrightarrow> \<not> is_space c"
  unfolding is_space_def by simp (elim disjE; simp)

lemma digit_not_sign:
  "c \<in> set ''0123456789'' \<Longrightarrow> c \<noteq> CHR ''-'' \<and> c \<noteq> CHR ''+'' \<and> c \<noteq> CHR ''_''"
  by simp (elim disjE; simp)

lemma dropWhile_none: "\<forall>c \<in> set xs. \<not> P c \<Longrightarrow> dropWhile P xs = xs"
  by (cases xs) simp_all

lemma strip_digits:
  assumes "\<forall>c \<in> set s. is_digit c"
  shows "strip s = s"
proof -
  have ns: "\<forall>c \<in> set s. \<not> is_space c"
    using assms by (simp add: is_digit_cases digit_not_space)
  then have "dropWhile is_space s = s"
    by (rule dropWhile_none)
  moreover from ns have "dropWhile is_space (rev s) = rev s"
    by (intro dropWhile_none) simp
  ultimately show ?thesis by (simp add: strip_def)
qed

lemma py_int_str_nat: "py_int (str_nat n) = Some (int n)"
proof -
  obtain c cs where s: "str_nat n = c # cs"
    using str_nat_nonempty [of n] by (cases "str_nat n") auto
  have "is_digit c" using str_nat_digits [of n] s by simp
  then have sign: "c \<noteq> CHR ''-''" "c \<noteq> CHR ''+''"
    using digit_not_sign [of c] by (simp_all add: is_digit_cases)
  have "strip (str_nat n) = c # cs"
    using strip_digits [OF str_nat_digits, of n] s by simp
  then have "py_int (str_nat n) = map_option int (py_nat (c # cs))"
    using sign by (simp add: py_int_def)
  also have "\<dots> = Some (int n)"
    using py_nat_str_nat [of n] s by simp
  finally show ?thesis .
qed

section \<open>Rendering a reference written by the app\<close>

lemma marker_at_head:
  "py_find (''DATAFRAME_INDEX:'' @ t) ''DATAFRAME_INDEX:'' = Some 0"
  by simp

lemma digit_not_D: "c \<in> set ''0123456789'' \<Longrightarrow> c \<noteq> CHR ''D''"
  by simp (elim disjE; simp)

lemma no_marker_in_digits:
  "\<forall>c \<in> set s. is_digit c \<Longrightarrow> py_find s ''DATAFRAME_INDEX:'' = None"
proof (induction s)
  case Nil
  show ?case by simp
next
  case (Cons c s)
  then have "c \<noteq> CHR ''D''" using digit_not_D [of c] by (simp add: is_digit_cases)
  with Cons show ?case by simp
qed

lemma py_split_reference:
  "py_split (dataframe_index n) ''DATAFRAME_INDEX:'' = [[], str_nat n]"
proof -
  have "py_split (str_nat n) ''DATAFRAME_INDEX:'' = [str_nat n]"
    by (subst py_split.simps) (simp add: no_marker_in_digits str_nat_digits)
  then show ?thesis
    unfolding dataframe_index_def
    by (subst py_split.simps) (simp only: marker_at_head, simp)
qed

lemma display_reference:
  assumes "n < length dfs"
  shows "display_message dfs \<lparr>mtype = r, content = dataframe_index n\<rparr>
         = Inr (ChatDataframe r (dfs ! n))"
proof -
  have "py_in ''DATAFRAME_INDEX:'' (dataframe_index n)"
    unfolding dataframe_index_def py_in_def by (simp only: marker_at_head) simp
  moreover have "py_getitem [[], str_nat n] 1 = Inr (str_nat n)"
    by (simp add: py_getitem_def)
  moreover have "py_getitem dfs (int n) = Inr (dfs ! n)"
    using assms by (simp add: py_getitem_def)
  ultimately show ?thesis
    by (simp add: display_message_def py_split_reference py_int_str_nat)
qed

lemma py_split_nonempty: "py_split t sep \<noteq> []"
  by (subst py_split.simps) (simp split: option.split)

lemma py_split_second:
  assumes "py_in ''DATAFRAME_INDEX:'' s"
  shows "\<exists>txt. py_getitem (py_split s ''DATAFRAME_INDEX:'') 1 = Inr txt"
proof -
  from assms obtain i where i: "py_find s ''DATAFRAME_INDEX:'' = Some i"
    by (auto simp: py_in_def)
  obtain t ts where "py_split (drop (i + length ''DATAFRAME_INDEX:'') s) ''DATAFRAME_INDEX:'' = t # ts"
    using py_split_nonempty by (meson list.exhaust)
  with i have "py_split s ''DATAFRAME_INDEX:'' = take i s # t # ts"
    by (subst py_split.simps) simp
  then show ?thesis by (simp add: py_getitem_def)
qed

lemma dataframes_emit: "dataframes (emit ev w) = dataframes w"
  by (simp add: emit_def)

lemma display_loop_fails:
  assumes "m \<in> set ms" and "display_message (dataframes w) m = Inl e"
  shows "isl (display_loop ms w)"
  using assms
proof (induction ms arbitrary: w)
  case Nil
  then show ?case by simp
next
  case (Cons a ms)
  show ?case
  proof (cases "display_message (dataframes w) a")
    case (Inl e')
    then show ?thesis by simp
  next
    case (Inr ev)
    with Cons.prems have "m \<in> set ms" by auto
    moreover have "display_message (dataframes (emit ev w)) m = Inl e"
      using Cons.prems by (simp add: dataframes_emit)
    ultimately have "isl (display_loop ms (emit ev w))" by (rule Cons.IH)
    with Inr show ?thesis by simp
  qed
qed

section \<open>A successful SQL step\<close>

lemma str_nat_0: "str_nat 0 = ''0''"
  by (subst str_nat.simps) (simp add: digit_char_def)

lemma str_nat_1: "str_nat (Suc 0) = ''1''"
  by (subst str_nat.simps) (simp add: digit_char_def)

lemma question_effects_sql:
  assumes "sql_data_analyst ag question = SqlReturned (Some q) df" and "q \<noteq> []"
  shows "question_effects ag question w =
         [ChatWrite Human question, MessageAdded Human question, SqlInvoked question,
          DataframeStored df, MessageAdded AI (response_1 q),
          MessageAdded AI (dataframe_index (length (dataframes w))),
          ChatWrite AI (response_1 q), StDataframe df, VizInvoked question df]
         @ (case data_visualization_agent ag question df of
              VizRaised e \<Rightarrow> [StError (''Failed to create visualization: '' @ e)]
            | VizReturned None \<Rightarrow> []
            | VizReturned (Some fig) \<Rightarrow>
                [StPlotlyChart fig, MessageAdded AI viz_response, ChatWrite AI viz_response])"
proof (cases "data_visualization_agent ag question df")
  case (VizRaised e)
  then show ?thesis
    by (simp add: question_effects_def process_question_sql [OF assms] visualize_raised
        sql_recorded_def)
next
  case (VizReturned g)
  show ?thesis
  proof (cases g)
    case None
    with VizReturned show ?thesis
      by (simp add: question_effects_def process_question_sql [OF assms] visualize_falsy
          sql_recorded_def)
  next
    case (Some fig)
    with VizReturned show ?thesis
      by (simp add: question_effects_def process_question_sql [OF assms] visualize_figure
          sql_recorded_def)
  qed
qed

lemma question_turns_sql:
  assumes "sql_data_analyst ag question = SqlReturned (Some q) df" and "q \<noteq> []"
  shows "question_turns ag question w =
         [\<lparr>mtype = Human, content = question\<rparr>, \<lparr>mtype = AI, content = response_1 q\<rparr>,
          \<lparr>mtype = AI, content = dataframe_index (length (dataframes w))\<rparr>]
         @ (case data_visualization_agent ag question df of
              VizRaised e \<Rightarrow> []
            | VizReturned None \<Rightarrow> []
            | VizReturned (Some fig) \<Rightarrow> [\<lparr>mtype = AI, content = viz_response\<rparr>])"
proof (cases "data_visualization_agent ag question df")
  case (VizRaised e)
  then show ?thesis
    by (simp add: question_turns_def process_question_sql [OF assms] visualize_raised
        sql_recorded_def)
next
  case (VizReturned g)
  show ?thesis
  proof (cases g)
    case None
    with VizReturned show ?thesis
      by (simp add: question_turns_def process_question_sql [OF assms] visualize_falsy
          sql_recorded_def)
  next
    case (Some fig)
    with VizReturned show ?thesis
      by (simp add: question_turns_def process_question_sql [OF assms] visualize_figure
          sql_recorded_def)
  qed
qed

lemma dataframes_sql:
  assumes "sql_data_analyst ag question = SqlReturned (Some q) df" and "q \<noteq> []"
  shows "dataframes (process_question ag question w) = dataframes w @ [df]"
proof (cases "data_visualization_agent ag question df")
  case (VizRaised e)
  then show ?thesis
    by (simp add: process_question_sql [OF assms] visualize_raised sql_recorded_def)
next
  case (VizReturned g)
  show ?thesis
  proof (cases g)
    case None
    with VizReturned show ?thesis
      by (simp add: process_question_sql [OF assms] visualize_falsy sql_recorded_def)
  next
    case (Some fig)
    with VizReturned show ?thesis
      by (simp add: process_question_sql [OF assms] visualize_figure sql_recorded_def)
  qed
qed

section \<open>Reference turns across a session\<close>

lemma table_refs_append: "table_refs (a @ b) = table_refs a @ table_refs b"
  by (simp add: table_refs_def)

lemma not_ref_human: "\<not> is_table_ref \<lparr>mtype = Human, content = c\<rparr>"
  by (simp add: is_table_ref_def)

lemma not_ref_response_text: "\<not> is_table_ref \<lparr>mtype = AI, content = response_text e\<rparr>"
  by (simp add: is_table_ref_def response_text_def)

lemma not_ref_response_1: "\<not> is_table_ref \<lparr>mtype = AI, content = response_1 q\<rparr>"
  by (simp add: is_table_ref_def response_1_def)

lemma not_ref_viz_response: "\<not> is_table_ref \<lparr>mtype = AI, content = viz_response\<rparr>"
  by (simp add: is_table_ref_def viz_response_def)

lemma not_ref_greeting: "\<not> is_table_ref \<lparr>mtype = AI, content = ''How can I help you?''\<rparr>"
  by (simp add: is_table_ref_def)

lemma ref_dataframe_index: "is_table_ref \<lparr>mtype = AI, content = dataframe_index n\<rparr>"
  by (simp add: is_table_ref_def dataframe_index_def)

lemmas ref_simps = not_ref_human not_ref_response_text not_ref_response_1 not_ref_viz_response
  not_ref_greeting ref_dataframe_index

lemma messages_sql:
  assumes "sql_data_analyst ag question = SqlReturned (Some q) df" and "q \<noteq> []"
  shows "messages (process_question ag question w) =
         messages w @
         [\<lparr>mtype = Human, content = question\<rparr>, \<lparr>mtype = AI, content = response_1 q\<rparr>,
          \<lparr>mtype = AI, content = dataframe_index (length (dataframes w))\<rparr>]
         @ (case data_visualization_agent ag question df of
              VizRaised e \<Rightarrow> []
            | VizReturned None \<Rightarrow> []
            | VizReturned (Some fig) \<Rightarrow> [\<lparr>mtype = AI, content = viz_response\<rparr>])"
proof (cases "data_visualization_agent ag question df")
  case (VizRaised e)
  then show ?thesis
    by (simp add: process_question_sql [OF assms] visualize_raised sql_recorded_def)
next
  case (VizReturned g)
  show ?thesis
  proof (cases g)
    case None
    with VizReturned show ?thesis
      by (simp add: process_question_sql [OF assms] visualize_falsy sql_recorded_def)
  next
    case (Some fig)
    with VizReturned show ?thesis
      by (simp add: process_question_sql [OF assms] visualize_figure sql_recorded_def)
  qed
qed

lemma refs_in_order_process_question:
  assumes "refs_in_order w"
  shows "refs_in_order (process_question ag question w)"
proof (cases "sql_data_analyst ag question")
  case (SqlRaised e)
  with assms show ?thesis
    by (simp add: process_question_raised refs_in_order_def table_refs_def ref_simps)
next
  case (SqlReturned sql_query df)
  show ?thesis
  proof (cases "sql_query = None \<or> sql_query = Some []")
    case True
    with assms show ?thesis
      by (simp add: process_question_no_sql [OF SqlReturned True] refs_in_order_def
          table_refs_def ref_simps)
  next
    case False
    then obtain q where q: "sql_query = Some q" "q \<noteq> []" by auto
    with SqlReturned have h: "sql_data_analyst ag question = SqlReturned (Some q) df" by simp
    have "table_refs (messages (process_question ag question w))
          = table_refs (messages w) @ [dataframe_index (length (dataframes w))]"
      unfolding messages_sql [OF h q(2)]
      by (simp add: table_refs_def ref_simps split: viz_outcome.split option.split)
    with assms show ?thesis
      by (simp add: refs_in_order_def dataframes_sql [OF h q(2)])
  qed
qed

lemma refs_in_order_setup_memory:
  assumes "refs_in_order w"
  shows "refs_in_order (setup_memory w)"
proof (cases "messages w = []")
  case True
  with assms have "map dataframe_index [0..<length (dataframes w)] = []"
    by (simp add: refs_in_order_def table_refs_def)
  then have "dataframes w = []" by simp
  with True show ?thesis
    by (simp add: setup_memory_def prim_defs refs_in_order_def table_refs_def ref_simps)
next
  case False
  with assms show ?thesis by (simp add: setup_memory_def)
qed

lemma display_loop_keeps_session:
  "(display_loop ms w = Inr w' \<longrightarrow> session_state w' = session_state w)
   \<and> (display_loop ms w = Inl (e, w') \<longrightarrow> session_state w' = session_state w)"
proof (induction ms arbitrary: w)
  case Nil
  show ?case by simp
next
  case (Cons a ms)
  show ?case
  proof (cases "display_message (dataframes w) a")
    case (Inl e')
    then show ?thesis by auto
  next
    case (Inr ev)
    have "session_state (emit ev w) = session_state w"
      by (simp add: session_state_def emit_def)
    with Cons [of "emit ev w"] Inr show ?thesis by simp
  qed
qed

lemma refs_in_order_cong:
  "session_state w' = session_state w \<Longrightarrow> refs_in_order w \<Longrightarrow> refs_in_order w'"
  by (simp add: session_state_def refs_in_order_def)

lemma refs_in_order_app_run:
  assumes "refs_in_order w"
  shows "refs_in_order (app_run ag chat_input w)"
proof -
  have s: "refs_in_order (setup_memory w)"
    using assms by (rule refs_in_order_setup_memory)
  show ?thesis
  proof (cases "display_chat_history (setup_memory w)")
    case (Inl p)
    obtain e w1 where p: "p = (e, w1)" by (cases p)
    with Inl have "session_state w1 = session_state (setup_memory w)"
      using display_loop_keeps_session [of "messages (setup_memory w)" "setup_memory w" w1 e]
      by (simp add: display_chat_history_def)
    then have "refs_in_order w1" using s by (rule refs_in_order_cong)
    with Inl p show ?thesis
      by (simp add: app_run_def)
  next
    case (Inr w1)
    then have "session_state w1 = session_state (setup_memory w)"
      using display_loop_keeps_session [of "messages (setup_memory w)" "setup_memory w" w1]
      by (simp add: display_chat_history_def)
    then have w1: "refs_in_order w1" using s by (rule refs_in_order_cong)
    then show ?thesis
      using Inr by (simp add: app_run_def refs_in_order_process_question split: option.split)
  qed
qed

lemma refs_in_order_session:
  "refs_in_order w \<Longrightarrow> refs_in_order (session runs w)"
proof (induction runs arbitrary: w)
  case Nil
  then show ?case by simp
next
  case (Cons r runs)
  obtain ag chat_input where r: "r = (ag, chat_input)" by (cases r)
  from Cons.prems have "refs_in_order (app_run ag chat_input w)"
    by (rule refs_in_order_app_run)
  then have "refs_in_order (session runs (app_run ag chat_input w))"
    by (rule Cons.IH)
  with r show ?case by simp
qed

lemma dataframe_index_inj: "dataframe_index a = dataframe_index b \<Longrightarrow> a = b"
proof -
  assume "dataframe_index a = dataframe_index b"
  then have "str_nat a = str_nat b" by (simp add: dataframe_index_def)
  then have "py_nat (str_nat a) = py_nat (str_nat b)" by simp
  then show "a = b" by (simp add: py_nat_str_nat)
qed

section \<open>What \<open>py_int\<close> refuses\<close>

lemma py_digits_chars:
  "py_digits acc s = Some v \<Longrightarrow> \<forall>c \<in> set s. int_char c"
proof (induction acc s arbitrary: v rule: py_digits.induct)
  case (1 acc)
  show ?case by simp
next
  case (2 acc c)
  then show ?case by (auto simp: int_char_def is_digit_def split: option.splits)
next
  case (3 acc c c' cs)
  show ?case
  proof (cases "c = CHR ''_''")
    case True
    with 3(3) obtain d where d: "digit_val c' = Some d" "py_digits (acc * 10 + d) cs = Some v"
      by (auto split: option.splits)
    from 3(1) [OF True d] have "\<forall>c \<in> set cs. int_char c" .
    with True d(1) show ?thesis by (simp add: int_char_def is_digit_def)
  next
    case False
    with 3(3) obtain d where d: "digit_val c = Some d"
      "py_digits (acc * 10 + d) (c' # cs) = Some v"
      by (auto split: option.splits)
    from 3(2) [OF False d] have "\<forall>x \<in> set (c' # cs). int_char x" .
    with d(1) show ?thesis by (simp add: int_char_def is_digit_def)
  qed
qed

lemma py_nat_chars: "py_nat s = Some v \<Longrightarrow> \<forall>c \<in> set s. int_char c"
proof (cases s)
  case Nil
  assume "py_nat s = Some v"
  with Nil show ?thesis by simp
next
  case (Cons c cs)
  assume "py_nat s = Some v"
  with Cons obtain d where d: "digit_val c = Some d" "py_digits d cs = Some v"
    by (auto split: option.splits)
  from py_digits_chars [OF d(2)] d(1) Cons show ?thesis
    by (simp add: int_char_def is_digit_def)
qed

lemma set_strip: "set s \<subseteq> set (strip s) \<union> {c. is_space c}"
proof -
  have a: "set xs \<subseteq> set (dropWhile P xs) \<union> {c. P c}" for P and xs :: "char list"
    by (induction xs) auto
  have "set s \<subseteq> set (dropWhile is_space s) \<union> {c. is_space c}" by (rule a)
  moreover have "set (rev (dropWhile is_space s))
                 \<subseteq> set (dropWhile is_space (rev (dropWhile is_space s))) \<union> {c. is_space c}"
    by (rule a)
  ultimately show ?thesis unfolding strip_def by auto
qed

lemma py_int_chars:
  assumes "py_int s = Some v"
  shows "\<forall>c \<in> set s. int_char c"
proof -
  have "\<forall>c \<in> set (strip s). int_char c"
  proof (cases "strip s")
    case Nil
    then show ?thesis by simp
  next
    case (Cons c cs)
    show ?thesis
    proof (cases "c = CHR ''-'' \<or> c = CHR ''+''")
      case True
      with assms Cons obtain n where "py_nat cs = Some n"
        by (auto simp: py_int_def split: if_splits)
      from py_nat_chars [OF this] True Cons show ?thesis
        by (auto simp: int_char_def)
    next
      case False
      with assms Cons obtain n where "py_nat (c # cs) = Some n"
        by (auto simp: py_int_def split: if_splits)
      from py_nat_chars [OF this] Cons show ?thesis by simp
    qed
  qed
  with set_strip [of s] show ?thesis by (auto simp: int_char_def)
qed

section \<open>The world of the reference turn, and concrete splits\<close>




lemma split_example:
  "py_split ''plot DATAFRAME_INDEX:abc'' ''DATAFRAME_INDEX:'' = [''plot '', ''abc'']"
  by code_simp

section \<open>When the visualization agent is called\<close>

text \<open>
  Claim C1, as the code has it. When the SQL step returns, the visualization agent is invoked
  exactly when the returned SQL text is neither \<^verbatim>\<open>None\<close> nor empty (the guard of line 222),
  once, with the question and the returned table. The rows of the table play no part.
\<close>

theorem viz_invoked_iff_sql_text:
  assumes "sql_data_analyst ag question = SqlReturned sql_query df"
  shows "filter is_viz_invoked (question_effects ag question w) =
         (if sql_query = None \<or> sql_query = Some [] then [] else [VizInvoked question df])"
proof (cases "sql_query = None \<or> sql_query = Some []")
  case True
  then show ?thesis
    by (simp add: question_effects_def process_question_no_sql [OF assms True])
next
  case False
  then obtain q where q: "sql_query = Some q" "q \<noteq> []" by auto
  with assms have "sql_data_analyst ag question = SqlReturned (Some q) df" by simp
  from question_effects_sql [OF this q(2), of w] False show ?thesis
    by (simp split: viz_outcome.split option.split)
qed

theorem viz_invoked_iff_sql_text_witness:
  "sql_data_analyst
     (constant_agents (SqlReturned (Some ''SELECT 1 WHERE 0'') (DataFrame [])) (VizReturned None))
     ''q'' = SqlReturned (Some ''SELECT 1 WHERE 0'') (DataFrame [])
   \<and> filter is_viz_invoked
        (question_effects
           (constant_agents (SqlReturned (Some ''SELECT 1 WHERE 0'') (DataFrame []))
              (VizReturned None)) ''q'' new_session)
      = [VizInvoked ''q'' (DataFrame [])]"
proof -
  have h: "sql_data_analyst
     (constant_agents (SqlReturned (Some ''SELECT 1 WHERE 0'') (DataFrame [])) (VizReturned None))
     ''q'' = SqlReturned (Some ''SELECT 1 WHERE 0'') (DataFrame [])"
    by (simp add: constant_agents_def)
  show ?thesis
    using h viz_invoked_iff_sql_text [OF h, of new_session] by simp
qed

text \<open>
  Claim C1 as stated fails: a query text with a table of no rows still reaches the
  visualization agent.
\<close>

theorem viz_invoked_on_empty_table:
  "sql_data_analyst
     (constant_agents (SqlReturned (Some ''SELECT 1 WHERE 0'') (DataFrame [])) (VizReturned None))
     ''q'' = SqlReturned (Some ''SELECT 1 WHERE 0'') (DataFrame [])
   \<and> rows (DataFrame []) = []
   \<and> list_ex is_viz_invoked
        (question_effects
           (constant_agents (SqlReturned (Some ''SELECT 1 WHERE 0'') (DataFrame []))
              (VizReturned None)) ''q'' new_session)"
  by (simp add: constant_agents_def question_effects_def process_question_def
      generate_results_def visualize_def prim_defs new_session_def Let_def)

section \<open>The turns of a fully successful question\<close>

text \<open>
  Claim C2, as the code has it. When the SQL step returns a non-empty query and the
  visualization yields a figure, exactly three assistant turns are added, in order: the SQL
  text, the table reference and the literal confirmation. No turn refers to the chart.
\<close>

theorem both_succeed_three_turns:
  assumes "sql_data_analyst ag question = SqlReturned (Some q) df" and "q \<noteq> []"
    and "data_visualization_agent ag question df = VizReturned (Some fig)"
  shows "ai_turns (question_turns ag question w) =
         [\<lparr>mtype = AI, content = response_1 q\<rparr>,
          \<lparr>mtype = AI, content = dataframe_index (length (dataframes w))\<rparr>,
          \<lparr>mtype = AI, content = viz_response\<rparr>]"
  using question_turns_sql [OF assms(1,2), of w] assms(3) by (simp add: ai_turns_def)

theorem both_succeed_three_turns_witness:
  "sql_data_analyst
     (constant_agents (SqlReturned (Some ''SELECT 1'') (DataFrame [[''1'']]))
        (VizReturned (Some (Figure ''bar'')))) ''q''
     = SqlReturned (Some ''SELECT 1'') (DataFrame [[''1'']])
   \<and> ''SELECT 1'' \<noteq> []
   \<and> data_visualization_agent
       (constant_agents (SqlReturned (Some ''SELECT 1'') (DataFrame [[''1'']]))
          (VizReturned (Some (Figure ''bar'')))) ''q'' (DataFrame [[''1'']])
     = VizReturned (Some (Figure ''bar''))
   \<and> ai_turns (question_turns
         (constant_agents (SqlReturned (Some ''SELECT 1'') (DataFrame [[''1'']]))
            (VizReturned (Some (Figure ''bar'')))) ''q'' new_session)
     = [\<lparr>mtype = AI, content = response_1 ''SELECT 1''\<rparr>,
        \<lparr>mtype = AI, content = ''DATAFRAME_INDEX:0''\<rparr>,
        \<lparr>mtype = AI, content = viz_response\<rparr>]"
proof -
  let ?ag = "constant_agents (SqlReturned (Some ''SELECT 1'') (DataFrame [[''1'']]))
        (VizReturned (Some (Figure ''bar'')))"
  have h1: "sql_data_analyst ?ag ''q'' = SqlReturned (Some ''SELECT 1'') (DataFrame [[''1'']])"
    by (simp add: constant_agents_def)
  have h2: "''SELECT 1'' \<noteq> []" by simp
  have h3: "data_visualization_agent ?ag ''q'' (DataFrame [[''1'']])
            = VizReturned (Some (Figure ''bar''))"
    by (simp add: constant_agents_def)
  show ?thesis
    using h1 h3 both_succeed_three_turns [OF h1 h2 h3, of new_session]
    by (simp add: new_session_def dataframe_index_def str_nat_0)
qed

text \<open>
  Claim C2 as stated fails: with both steps successful the question adds three assistant
  turns, not four.
\<close>

theorem both_succeed_not_four_turns:
  "sql_data_analyst
     (constant_agents (SqlReturned (Some ''SELECT 1'') (DataFrame [[''1'']]))
        (VizReturned (Some (Figure ''bar'')))) ''q''
     = SqlReturned (Some ''SELECT 1'') (DataFrame [[''1'']])
   \<and> data_visualization_agent
       (constant_agents (SqlReturned (Some ''SELECT 1'') (DataFrame [[''1'']]))
          (VizReturned (Some (Figure ''bar'')))) ''q'' (DataFrame [[''1'']])
     = VizReturned (Some (Figure ''bar''))
   \<and> length (ai_turns (question_turns
         (constant_agents (SqlReturned (Some ''SELECT 1'') (DataFrame [[''1'']]))
            (VizReturned (Some (Figure ''bar'')))) ''q'' new_session)) = 3"
proof -
  let ?ag = "constant_agents (SqlReturned (Some ''SELECT 1'') (DataFrame [[''1'']]))
        (VizReturned (Some (Figure ''bar'')))"
  have h1: "sql_data_analyst ?ag ''q'' = SqlReturned (Some ''SELECT 1'') (DataFrame [[''1'']])"
    by (simp add: constant_agents_def)
  have h3: "data_visualization_agent ?ag ''q'' (DataFrame [[''1'']])
            = VizReturned (Some (Figure ''bar''))"
    by (simp add: constant_agents_def)
  show ?thesis
    using h1 h3 question_turns_sql [OF h1, of new_session] by (simp add: ai_turns_def)
qed

section \<open>Charts are shown, not stored\<close>

text \<open>
  Claim C3, as the code has it. A figure produced by the visualization step is passed to
  \<^verbatim>\<open>st.plotly_chart\<close> once and is not kept: the session holds the transcript and the list of
  tables only, and there is no counter for charts. After two consecutive questions that each
  produce a table and a chart, the two tables are at the next two indices of the table list
  (0 and 1 in a new session), the transcript refers to them by these indices, and what the
  session keeps does not mention the figures.
\<close>

theorem charts_shown_not_stored:
  assumes "sql_data_analyst ag1 q1 = SqlReturned (Some s1) df1" and "s1 \<noteq> []"
    and "data_visualization_agent ag1 q1 df1 = VizReturned (Some fig1)"
    and "sql_data_analyst ag2 q2 = SqlReturned (Some s2) df2" and "s2 \<noteq> []"
    and "data_visualization_agent ag2 q2 df2 = VizReturned (Some fig2)"
  shows "session_state (process_question ag2 q2 (process_question ag1 q1 w)) =
           (messages w @
            [\<lparr>mtype = Human, content = q1\<rparr>, \<lparr>mtype = AI, content = response_1 s1\<rparr>,
             \<lparr>mtype = AI, content = dataframe_index (length (dataframes w))\<rparr>,
             \<lparr>mtype = AI, content = viz_response\<rparr>,
             \<lparr>mtype = Human, content = q2\<rparr>, \<lparr>mtype = AI, content = response_1 s2\<rparr>,
             \<lparr>mtype = AI, content = dataframe_index (Suc (length (dataframes w)))\<rparr>,
             \<lparr>mtype = AI, content = viz_response\<rparr>],
            dataframes w @ [df1, df2])
       \<and> filter is_plotly_chart
           (drop (length (trace w)) (trace (process_question ag2 q2 (process_question ag1 q1 w))))
         = [StPlotlyChart fig1, StPlotlyChart fig2]"
proof -
  let ?w1 = "process_question ag1 q1 w"
  have w1: "?w1 = visualize ag1 q1 df1 (sql_recorded q1 s1 df1 w)"
    by (rule process_question_sql [OF assms(1,2)])
  have w2: "process_question ag2 q2 ?w1 = visualize ag2 q2 df2 (sql_recorded q2 s2 df2 ?w1)"
    by (rule process_question_sql [OF assms(4,5)])
  show ?thesis
    unfolding w2 unfolding w1
    by (simp add: visualize_figure [OF assms(3)] visualize_figure [OF assms(6)]
        sql_recorded_def session_state_def)
qed

theorem charts_shown_not_stored_witness:
  "sql_data_analyst
     (constant_agents (SqlReturned (Some ''SELECT 1'') (DataFrame [[''1'']]))
        (VizReturned (Some (Figure ''bar'')))) ''q1''
     = SqlReturned (Some ''SELECT 1'') (DataFrame [[''1'']])
   \<and> session_state
       (process_question
          (constant_agents (SqlReturned (Some ''SELECT 2'') (DataFrame [[''2'']]))
             (VizReturned (Some (Figure ''pie'')))) ''q2''
          (process_question
             (constant_agents (SqlReturned (Some ''SELECT 1'') (DataFrame [[''1'']]))
                (VizReturned (Some (Figure ''bar'')))) ''q1'' new_session))
     = ([\<lparr>mtype = Human, content = ''q1''\<rparr>,
         \<lparr>mtype = AI, content = response_1 ''SELECT 1''\<rparr>,
         \<lparr>mtype = AI, content = ''DATAFRAME_INDEX:0''\<rparr>,
         \<lparr>mtype = AI, content = viz_response\<rparr>,
         \<lparr>mtype = Human, content = ''q2''\<rparr>,
         \<lparr>mtype = AI, content = response_1 ''SELECT 2''\<rparr>,
         \<lparr>mtype = AI, content = ''DATAFRAME_INDEX:1''\<rparr>,
         \<lparr>mtype = AI, content = viz_response\<rparr>],
        [DataFrame [[''1'']], DataFrame [[''2'']]])"
proof -
  let ?a1 = "constant_agents (SqlReturned (Some ''SELECT 1'') (DataFrame [[''1'']]))
        (VizReturned (Some (Figure ''bar'')))"
  let ?a2 = "constant_agents (SqlReturned (Some ''SELECT 2'') (DataFrame [[''2'']]))
        (VizReturned (Some (Figure ''pie'')))"
  have h1: "sql_data_analyst ?a1 ''q1'' = SqlReturned (Some ''SELECT 1'') (DataFrame [[''1'']])"
    by (simp add: constant_agents_def)
  have h2: "''SELECT 1'' \<noteq> []" by simp
  have h3: "data_visualization_agent ?a1 ''q1'' (DataFrame [[''1'']])
            = VizReturned (Some (Figure ''bar''))"
    by (simp add: constant_agents_def)
  have h4: "sql_data_analyst ?a2 ''q2'' = SqlReturned (Some ''SELECT 2'') (DataFrame [[''2'']])"
    by (simp add: constant_agents_def)
  have h5: "''SELECT 2'' \<noteq> []" by simp
  have h6: "data_visualization_agent ?a2 ''q2'' (DataFrame [[''2'']])
            = VizReturned (Some (Figure ''pie''))"
    by (simp add: constant_agents_def)
  show ?thesis
    using h1 charts_shown_not_stored [OF h1 h2 h3 h4 h5 h6, of new_session]
    by (simp add: new_session_def dataframe_index_def str_nat_0 str_nat_1)
qed

text \<open>
  Claim C3 as stated fails: two runs of the same two questions that differ only in the
  figures produced leave the same session state, which holds two tables and no chart.
\<close>

theorem chart_leaves_no_artifact:
  "Figure ''bar'' \<noteq> Figure ''pie''
   \<and> session_state
       (process_question
          (constant_agents (SqlReturned (Some ''SELECT 1'') (DataFrame [[''1'']]))
             (VizReturned (Some (Figure ''bar'')))) ''q2''
          (process_question
             (constant_agents (SqlReturned (Some ''SELECT 1'') (DataFrame [[''1'']]))
                (VizReturned (Some (Figure ''bar'')))) ''q1'' new_session))
     = session_state
       (process_question
          (constant_agents (SqlReturned (Some ''SELECT 1'') (DataFrame [[''1'']]))
             (VizReturned (Some (Figure ''pie'')))) ''q2''
          (process_question
             (constant_agents (SqlReturned (Some ''SELECT 1'') (DataFrame [[''1'']]))
                (VizReturned (Some (Figure ''pie'')))) ''q1'' new_session))
   \<and> dataframes
       (process_question
          (constant_agents (SqlReturned (Some ''SELECT 1'') (DataFrame [[''1'']]))
             (VizReturned (Some (Figure ''bar'')))) ''q2''
          (process_question
             (constant_agents (SqlReturned (Some ''SELECT 1'') (DataFrame [[''1'']]))
                (VizReturned (Some (Figure ''bar'')))) ''q1'' new_session))
     = [DataFrame [[''1'']], DataFrame [[''1'']]]"
  by (simp add: constant_agents_def process_question_def generate_results_def visualize_def
      prim_defs new_session_def session_state_def Let_def)

section \<open>The turns of a successful SQL step\<close>

text \<open>
  Claim C4, as the code has it. When the SQL step returns a non-empty SQL text, the turns
  added after the question start with the SQL text and the reference to the table, which is
  stored at the end of the list. When the SQL text is \<^verbatim>\<open>None\<close> or empty, only the
  question is added and nothing is stored.
\<close>

theorem sql_turns_need_sql_text:
  assumes "sql_data_analyst ag question = SqlReturned sql_query df"
  shows "if sql_query = None \<or> sql_query = Some []
         then question_turns ag question w = [\<lparr>mtype = Human, content = question\<rparr>]
            \<and> dataframes (process_question ag question w) = dataframes w
         else take 3 (question_turns ag question w)
              = [\<lparr>mtype = Human, content = question\<rparr>,
                 \<lparr>mtype = AI, content = response_1 (the sql_query)\<rparr>,
                 \<lparr>mtype = AI, content = dataframe_index (length (dataframes w))\<rparr>]
            \<and> dataframes (process_question ag question w) = dataframes w @ [df]"
proof (cases "sql_query = None \<or> sql_query = Some []")
  case True
  then show ?thesis
    by (simp add: question_turns_def process_question_no_sql [OF assms True])
next
  case False
  then obtain q where q: "sql_query = Some q" "q \<noteq> []" by auto
  with assms have h: "sql_data_analyst ag question = SqlReturned (Some q) df" by simp
  from question_turns_sql [OF h q(2), of w] dataframes_sql [OF h q(2), of w] False q
  show ?thesis by simp
qed

theorem sql_turns_need_sql_text_witness:
  "sql_data_analyst
     (constant_agents (SqlReturned (Some ''SELECT 1'') (DataFrame [[''1'']])) (VizReturned None))
     ''q'' = SqlReturned (Some ''SELECT 1'') (DataFrame [[''1'']])
   \<and> take 3 (question_turns
         (constant_agents (SqlReturned (Some ''SELECT 1'') (DataFrame [[''1'']])) (VizReturned None))
         ''q'' new_session)
     = [\<lparr>mtype = Human, content = ''q''\<rparr>,
        \<lparr>mtype = AI, content = response_1 ''SELECT 1''\<rparr>,
        \<lparr>mtype = AI, content = ''DATAFRAME_INDEX:0''\<rparr>]
   \<and> dataframes (process_question
         (constant_agents (SqlReturned (Some ''SELECT 1'') (DataFrame [[''1'']])) (VizReturned None))
         ''q'' new_session) = [DataFrame [[''1'']]]"
proof -
  let ?ag = "constant_agents (SqlReturned (Some ''SELECT 1'') (DataFrame [[''1'']]))
        (VizReturned None)"
  have h: "sql_data_analyst ?ag ''q'' = SqlReturned (Some ''SELECT 1'') (DataFrame [[''1'']])"
    by (simp add: constant_agents_def)
  show ?thesis
    using h sql_turns_need_sql_text [OF h, of new_session]
    by (simp add: new_session_def dataframe_index_def str_nat_0)
qed

text \<open>
  Claim C4 as stated fails: an SQL step that returns an empty SQL text adds no assistant
  turn and stores no table.
\<close>

theorem empty_sql_text_no_turns:
  "sql_data_analyst
     (constant_agents (SqlReturned (Some []) (DataFrame [[''1'']])) (VizReturned None)) ''q''
     = SqlReturned (Some []) (DataFrame [[''1'']])
   \<and> ai_turns (question_turns
         (constant_agents (SqlReturned (Some []) (DataFrame [[''1'']])) (VizReturned None))
         ''q'' new_session) = []
   \<and> dataframes (process_question
         (constant_agents (SqlReturned (Some []) (DataFrame [[''1'']])) (VizReturned None))
         ''q'' new_session) = []"
  by (simp add: constant_agents_def question_turns_def process_question_def
      generate_results_def prim_defs new_session_def ai_turns_def)

section \<open>A failing SQL step\<close>

text \<open>
  Claim C5. When the SQL step raises, the visualization agent is not invoked, the only
  assistant turn added for the question is the apology of line 207, which contains the
  exception's text, and the list of stored data frames is as it was.
\<close>

theorem sql_failure_one_error_turn:
  assumes "sql_data_analyst ag question = SqlRaised e"
  shows "\<not> list_ex is_viz_invoked (question_effects ag question w)
       \<and> ai_turns (question_turns ag question w) = [\<lparr>mtype = AI, content = response_text e\<rparr>]
       \<and> py_in e (response_text e)
       \<and> dataframes (process_question ag question w) = dataframes w"
proof -
  have "py_in e (response_text e)"
    unfolding response_text_def by (rule py_in_embedded)
  then show ?thesis
    by (simp add: process_question_raised [OF assms] question_effects_def question_turns_def
        ai_turns_def)
qed

theorem sql_failure_one_error_turn_witness:
  "sql_data_analyst (constant_agents (SqlRaised ''no such table'') (VizReturned None)) ''q''
     = SqlRaised ''no such table''
   \<and> \<not> list_ex is_viz_invoked
         (question_effects (constant_agents (SqlRaised ''no such table'') (VizReturned None))
            ''q'' new_session)
   \<and> ai_turns (question_turns (constant_agents (SqlRaised ''no such table'') (VizReturned None))
         ''q'' new_session) = [\<lparr>mtype = AI, content = response_text ''no such table''\<rparr>]
   \<and> dataframes (process_question (constant_agents (SqlRaised ''no such table'') (VizReturned None))
         ''q'' new_session) = []"
proof -
  have h: "sql_data_analyst (constant_agents (SqlRaised ''no such table'') (VizReturned None)) ''q''
     = SqlRaised ''no such table''"
    by (simp add: constant_agents_def)
  show ?thesis
    using h sql_failure_one_error_turn [OF h, of new_session]
    by (simp add: new_session_def)
qed

section \<open>A failing visualization\<close>

text \<open>
  Claim C6. When the SQL step returned a query and the visualization raises, the handler of
  line 260 only calls \<^verbatim>\<open>st.error\<close>: the turns of the question are the question, the SQL
  text and the table reference, no turn is added for the failure, the table stays stored,
  and the reference still renders as that table.
\<close>

theorem viz_failure_only_warns:
  assumes "sql_data_analyst ag question = SqlReturned (Some q) df" and "q \<noteq> []"
    and "data_visualization_agent ag question df = VizRaised e"
  shows "question_turns ag question w =
           [\<lparr>mtype = Human, content = question\<rparr>, \<lparr>mtype = AI, content = response_1 q\<rparr>,
            \<lparr>mtype = AI, content = dataframe_index (length (dataframes w))\<rparr>]
       \<and> dataframes (process_question ag question w) = dataframes w @ [df]
       \<and> drop 8 (question_effects ag question w) =
           [VizInvoked question df, StError (''Failed to create visualization: '' @ e)]
       \<and> display_message (dataframes (process_question ag question w))
             \<lparr>mtype = AI, content = dataframe_index (length (dataframes w))\<rparr>
           = Inr (ChatDataframe AI df)"
proof -
  have d: "dataframes (process_question ag question w) = dataframes w @ [df]"
    by (rule dataframes_sql [OF assms(1,2)])
  have "display_message (dataframes w @ [df])
          \<lparr>mtype = AI, content = dataframe_index (length (dataframes w))\<rparr>
        = Inr (ChatDataframe AI ((dataframes w @ [df]) ! length (dataframes w)))"
    by (rule display_reference) simp
  then show ?thesis
    using question_turns_sql [OF assms(1,2), of w] question_effects_sql [OF assms(1,2), of w]
      assms(3) d
    by simp
qed

theorem viz_failure_only_warns_witness:
  "sql_data_analyst
     (constant_agents (SqlReturned (Some ''SELECT COUNT(1) FROM X'') (DataFrame [[''42'']]))
        (VizRaised ''InvalidResult'')) ''How many rows in table X?''
     = SqlReturned (Some ''SELECT COUNT(1) FROM X'') (DataFrame [[''42'']])
   \<and> ''SELECT COUNT(1) FROM X'' \<noteq> []
   \<and> data_visualization_agent
       (constant_agents (SqlReturned (Some ''SELECT COUNT(1) FROM X'') (DataFrame [[''42'']]))
          (VizRaised ''InvalidResult'')) ''How many rows in table X?'' (DataFrame [[''42'']])
     = VizRaised ''InvalidResult''
   \<and> question_turns
       (constant_agents (SqlReturned (Some ''SELECT COUNT(1) FROM X'') (DataFrame [[''42'']]))
          (VizRaised ''InvalidResult'')) ''How many rows in table X?'' new_session
     = [\<lparr>mtype = Human, content = ''How many rows in table X?''\<rparr>,
        \<lparr>mtype = AI, content = response_1 ''SELECT COUNT(1) FROM X''\<rparr>,
        \<lparr>mtype = AI, content = ''DATAFRAME_INDEX:0''\<rparr>]
   \<and> dataframes (process_question
       (constant_agents (SqlReturned (Some ''SELECT COUNT(1) FROM X'') (DataFrame [[''42'']]))
          (VizRaised ''InvalidResult'')) ''How many rows in table X?'' new_session)
     = [DataFrame [[''42'']]]
   \<and> drop 8 (question_effects
       (constant_agents (SqlReturned (Some ''SELECT COUNT(1) FROM X'') (DataFrame [[''42'']]))
          (VizRaised ''InvalidResult'')) ''How many rows in table X?'' new_session)
     = [VizInvoked ''How many rows in table X?'' (DataFrame [[''42'']]),
        StError ''Failed to create visualization: InvalidResult'']"
proof -
  let ?ag = "constant_agents (SqlReturned (Some ''SELECT COUNT(1) FROM X'') (DataFrame [[''42'']]))
        (VizRaised ''InvalidResult'')"
  have h1: "sql_data_analyst ?ag ''How many rows in table X?''
            = SqlReturned (Some ''SELECT COUNT(1) FROM X'') (DataFrame [[''42'']])"
    by (simp add: constant_agents_def)
  have h2: "''SELECT COUNT(1) FROM X'' \<noteq> []" by simp
  have h3: "data_visualization_agent ?ag ''How many rows in table X?'' (DataFrame [[''42'']])
            = VizRaised ''InvalidResult''"
    by (simp add: constant_agents_def)
  show ?thesis
    using h1 h3 viz_failure_only_warns [OF h1 h2 h3, of new_session]
    by (simp add: new_session_def dataframe_index_def str_nat_0)
qed

section \<open>Table indices of a session\<close>

text \<open>
  Claim C7. After any sequence of script runs from a new session, whatever the agents did in
  each, the reference turns of the transcript carry, in transcript order, the indices
  0, 1, 2 and so on up to the number of stored tables: a contiguous range from 0, in step
  order, without gap or repetition.
\<close>

theorem table_indices_contiguous:
  "table_refs (messages (session runs new_session))
     = map dataframe_index [0..<length (dataframes (session runs new_session))]
   \<and> distinct (table_refs (messages (session runs new_session)))"
proof -
  have "refs_in_order new_session"
    by (simp add: refs_in_order_def new_session_def table_refs_def)
  then have r: "refs_in_order (session runs new_session)"
    by (rule refs_in_order_session)
  have "distinct (map dataframe_index [0..<k])" for k
    by (simp add: distinct_map inj_on_def dataframe_index_inj)
  with r show ?thesis by (simp add: refs_in_order_def)
qed

theorem table_indices_contiguous_witness:
  "table_refs (messages (session
      [(constant_agents (SqlReturned (Some ''SELECT 1'') (DataFrame [[''1'']])) (VizReturned None),
        Some ''first''),
       (constant_agents (SqlRaised ''locked'') (VizReturned None), Some ''second''),
       (constant_agents (SqlReturned (Some ''SELECT 2'') (DataFrame [])) (VizRaised ''no chart''),
        Some ''third'')] new_session))
   = [''DATAFRAME_INDEX:0'', ''DATAFRAME_INDEX:1'']"
proof -
  let ?runs = "[(constant_agents (SqlReturned (Some ''SELECT 1'') (DataFrame [[''1'']]))
                  (VizReturned None), Some ''first''),
       (constant_agents (SqlRaised ''locked'') (VizReturned None), Some ''second''),
       (constant_agents (SqlReturned (Some ''SELECT 2'') (DataFrame [])) (VizRaised ''no chart''),
        Some ''third'')]"
  have "length (dataframes (session ?runs new_session)) = Suc (Suc 0)"
    by code_simp
  then show ?thesis
    using table_indices_contiguous [of ?runs]
    by (simp add: dataframe_index_def str_nat_0 str_nat_1)
qed

section \<open>Order of the store and the two turns\<close>




section \<open>Any turn holding the marker is rendered as a reference\<close>

text \<open>
  Claim C9. A turn of any type whose ASCII content contains \<^verbatim>\<open>DATAFRAME_INDEX:\<close> is rendered
  by taking the second piece of the content split at the marker, reading it with \<^verbatim>\<open>int\<close>
  and indexing the table list; it is never written as text. When the piece is the numeral of
  an index in range, the table is shown in a bubble of the turn's type. When the piece is not
  an integer (in particular when it holds a character that no integer literal has), or the
  integer is outside the range the list accepts, the rendering of the whole transcript
  raises. The concrete runs below are user questions of both kinds.
\<close>

theorem marker_turn_rendered_as_reference:
  assumes "m \<in> set (messages w)" and "py_in ''DATAFRAME_INDEX:'' (content m)"
    and "is_ascii (content m)" and "length (content m) \<le> 4300"
  shows "\<exists>seg. py_getitem (py_split (content m) ''DATAFRAME_INDEX:'') 1 = Inr seg
           \<and> display_message (dataframes w) m =
               (case py_int seg of
                  None \<Rightarrow> Inl ValueError
                | Some i \<Rightarrow>
                    (case py_getitem (dataframes w) i of
                       Inl e \<Rightarrow> Inl e
                     | Inr df \<Rightarrow> Inr (ChatDataframe (mtype m) df)))
           \<and> (py_int seg = None
                \<or> (\<exists>i. py_int seg = Some i
                        \<and> \<not> (- int (length (dataframes w)) \<le> i
                               \<and> i < int (length (dataframes w))))
               \<longrightarrow> isl (display_chat_history w))
           \<and> (\<forall>n. seg = str_nat n \<and> n < length (dataframes w)
                \<longrightarrow> display_message (dataframes w) m
                    = Inr (ChatDataframe (mtype m) (dataframes w ! n)))
           \<and> ((\<exists>c \<in> set seg. \<not> int_char c)
                \<longrightarrow> display_message (dataframes w) m = Inl ValueError
                    \<and> isl (display_chat_history w))"
proof -
  from py_split_second [OF assms(2)] obtain seg
    where seg: "py_getitem (py_split (content m) ''DATAFRAME_INDEX:'') 1 = Inr seg" ..
  have d: "display_message (dataframes w) m =
               (case py_int seg of
                  None \<Rightarrow> Inl ValueError
                | Some i \<Rightarrow>
                    (case py_getitem (dataframes w) i of
                       Inl e \<Rightarrow> Inl e
                     | Inr df \<Rightarrow> Inr (ChatDataframe (mtype m) df)))"
    using assms(2) seg by (simp add: display_message_def)
  have f: "isl (display_chat_history w)"
    if "py_int seg = None
        \<or> (\<exists>i. py_int seg = Some i
                \<and> \<not> (- int (length (dataframes w)) \<le> i \<and> i < int (length (dataframes w))))"
  proof -
    from that have "\<exists>e. display_message (dataframes w) m = Inl e"
    proof
      assume "py_int seg = None"
      with d show ?thesis by simp
    next
      assume "\<exists>i. py_int seg = Some i
                \<and> \<not> (- int (length (dataframes w)) \<le> i \<and> i < int (length (dataframes w)))"
      then obtain i where i: "py_int seg = Some i"
        "\<not> (- int (length (dataframes w)) \<le> i \<and> i < int (length (dataframes w)))" by blast
      from i(2) have "py_getitem (dataframes w) i = Inl IndexError"
        by (auto simp: py_getitem_def)
      with d i(1) show ?thesis by simp
    qed
    then obtain e where "display_message (dataframes w) m = Inl e" ..
    with assms(1) show ?thesis
      unfolding display_chat_history_def by (rule display_loop_fails)
  qed
  have s: "display_message (dataframes w) m = Inr (ChatDataframe (mtype m) (dataframes w ! n))"
    if "seg = str_nat n" and "n < length (dataframes w)" for n
    using d that by (simp add: py_int_str_nat py_getitem_def)
  have b: "display_message (dataframes w) m = Inl ValueError \<and> isl (display_chat_history w)"
    if "\<exists>c \<in> set seg. \<not> int_char c"
  proof -
    have n: "py_int seg = None"
    proof (cases "py_int seg")
      case None
      then show ?thesis .
    next
      case (Some v)
      from py_int_chars [OF this] that show ?thesis by blast
    qed
    with d f show ?thesis by simp
  qed
  from seg d f s b show ?thesis by blast
qed

theorem marker_turn_rendered_as_reference_witness:
  "\<lparr>mtype = Human, content = ''plot DATAFRAME_INDEX:abc''\<rparr>
     \<in> set (messages (process_question
           (constant_agents (SqlRaised ''syntax error'') (VizReturned None))
           ''plot DATAFRAME_INDEX:abc'' new_session))
   \<and> py_in ''DATAFRAME_INDEX:'' ''plot DATAFRAME_INDEX:abc''
   \<and> is_ascii ''plot DATAFRAME_INDEX:abc''
   \<and> length ''plot DATAFRAME_INDEX:abc'' \<le> 4300
   \<and> isl (display_chat_history (process_question
           (constant_agents (SqlRaised ''syntax error'') (VizReturned None))
           ''plot DATAFRAME_INDEX:abc'' new_session))
   \<and> \<lparr>mtype = Human, content = ''DATAFRAME_INDEX:0''\<rparr>
     \<in> set (messages (process_question
           (constant_agents (SqlReturned (Some ''SELECT 1'') (DataFrame [[''1'']]))
              (VizReturned None)) ''DATAFRAME_INDEX:0'' new_session))
   \<and> display_message
       (dataframes (process_question
           (constant_agents (SqlReturned (Some ''SELECT 1'') (DataFrame [[''1'']]))
              (VizReturned None)) ''DATAFRAME_INDEX:0'' new_session))
       \<lparr>mtype = Human, content = ''DATAFRAME_INDEX:0''\<rparr>
     = Inr (ChatDataframe Human (DataFrame [[''1'']]))"
proof -
  let ?w = "process_question (constant_agents (SqlRaised ''syntax error'') (VizReturned None))
              ''plot DATAFRAME_INDEX:abc'' new_session"
  let ?m = "\<lparr>mtype = Human, content = ''plot DATAFRAME_INDEX:abc''\<rparr>"
  have h1: "?m \<in> set (messages ?w)"
    by (simp add: process_question_def constant_agents_def prim_defs new_session_def)
  have h2: "py_in ''DATAFRAME_INDEX:'' (content ?m)"
    by (simp add: py_in_def)
  have h3: "is_ascii (content ?m)" by (simp add: is_ascii_def)
  have h4: "length (content ?m) \<le> 4300" by simp
  have p: "py_int ''abc'' = None"
    by (simp add: py_int_def strip_def is_space_def digit_val_def)
  have fails: "isl (display_chat_history ?w)"
    using marker_turn_rendered_as_reference [OF h1 h2 h3 h4] p
    by (auto simp: split_example py_getitem_def)
  let ?ag = "constant_agents (SqlReturned (Some ''SELECT 1'') (DataFrame [[''1'']]))
              (VizReturned None)"
  let ?v = "process_question ?ag ''DATAFRAME_INDEX:0'' new_session"
  let ?u = "\<lparr>mtype = Human, content = ''DATAFRAME_INDEX:0''\<rparr>"
  have s: "sql_data_analyst ?ag ''DATAFRAME_INDEX:0''
           = SqlReturned (Some ''SELECT 1'') (DataFrame [[''1'']])"
    by (simp add: constant_agents_def)
  have dv: "dataframes ?v = [DataFrame [[''1'']]]"
    using dataframes_sql [OF s, of new_session] by (simp add: new_session_def)
  have g1: "?u \<in> set (messages ?v)"
    using messages_sql [OF s, of new_session] by simp
  have g2: "py_in ''DATAFRAME_INDEX:'' (content ?u)" by (simp add: py_in_def)
  have g3: "is_ascii (content ?u)" by (simp add: is_ascii_def)
  have g4: "length (content ?u) \<le> 4300" by simp
  have sp: "py_split ''DATAFRAME_INDEX:0'' ''DATAFRAME_INDEX:'' = [[], str_nat 0]"
    using py_split_reference [of 0] by (simp add: dataframe_index_def str_nat_0)
  have shown: "display_message (dataframes ?v) ?u = Inr (ChatDataframe Human (DataFrame [[''1'']]))"
    using marker_turn_rendered_as_reference [OF g1 g2 g3 g4] dv
    by (auto simp: sp py_getitem_def)
  from h1 h2 h3 h4 fails g1 shown show ?thesis by simp
qed

section \<open>A visualization that yields no figure\<close>

text \<open>
  Claim C10. When the visualization returns without raising and the figure is falsy, nothing
  follows the invocation: no chart is shown, no confirmation turn is added and no error is
  displayed. The world is the one before the attempt with the invocation recorded.
\<close>

theorem falsy_figure_is_silent:
  assumes "sql_data_analyst ag question = SqlReturned (Some q) df" and "q \<noteq> []"
    and "data_visualization_agent ag question df = VizReturned None"
  shows "question_effects ag question w =
           [ChatWrite Human question, MessageAdded Human question, SqlInvoked question,
            DataframeStored df, MessageAdded AI (response_1 q),
            MessageAdded AI (dataframe_index (length (dataframes w))),
            ChatWrite AI (response_1 q), StDataframe df, VizInvoked question df]
       \<and> question_turns ag question w =
           [\<lparr>mtype = Human, content = question\<rparr>, \<lparr>mtype = AI, content = response_1 q\<rparr>,
            \<lparr>mtype = AI, content = dataframe_index (length (dataframes w))\<rparr>]
       \<and> process_question ag question w
         = emit (VizInvoked question df) (sql_recorded question q df w)"
  using question_turns_sql [OF assms(1,2), of w] question_effects_sql [OF assms(1,2), of w]
    assms(3) process_question_sql [OF assms(1,2), of w] visualize_falsy [OF assms(3)]
  by (simp add: emit_def)

theorem falsy_figure_is_silent_witness:
  "sql_data_analyst
     (constant_agents (SqlReturned (Some ''SELECT 1'') (DataFrame [[''1'']])) (VizReturned None))
     ''q'' = SqlReturned (Some ''SELECT 1'') (DataFrame [[''1'']])
   \<and> ''SELECT 1'' \<noteq> []
   \<and> data_visualization_agent
       (constant_agents (SqlReturned (Some ''SELECT 1'') (DataFrame [[''1'']])) (VizReturned None))
       ''q'' (DataFrame [[''1'']]) = VizReturned None
   \<and> question_effects
       (constant_agents (SqlReturned (Some ''SELECT 1'') (DataFrame [[''1'']])) (VizReturned None))
       ''q'' new_session
     = [ChatWrite Human ''q'', MessageAdded Human ''q'', SqlInvoked ''q'',
        DataframeStored (DataFrame [[''1'']]), MessageAdded AI (response_1 ''SELECT 1''),
        MessageAdded AI ''DATAFRAME_INDEX:0'', ChatWrite AI (response_1 ''SELECT 1''),
        StDataframe (DataFrame [[''1'']]), VizInvoked ''q'' (DataFrame [[''1'']])]"
proof -
  let ?ag = "constant_agents (SqlReturned (Some ''SELECT 1'') (DataFrame [[''1'']]))
        (VizReturned None)"
  have h1: "sql_data_analyst ?ag ''q'' = SqlReturned (Some ''SELECT 1'') (DataFrame [[''1'']])"
    by (simp add: constant_agents_def)
  have h2: "''SELECT 1'' \<noteq> []" by simp
  have h3: "data_visualization_agent ?ag ''q'' (DataFrame [[''1'']]) = VizReturned None"
    by (simp add: constant_agents_def)
  show ?thesis
    using h1 h3 falsy_figure_is_silent [OF h1 h2 h3, of new_session]
    by (simp add: new_session_def dataframe_index_def str_nat_0)
qed

end
